theory Spec2Isabelle
  imports Complex_Main "HOL-Library.Char_ord" "HOL-Library.List_Lexorder" "HOL-Library.Product_Lexorder"
    "HOL-Library.Multiset"
begin

section \<open>Values of the data frame\<close>

text \<open>
  A Python float is modelled as an exact rational number or the value \<open>nan\<close>: every
  finite IEEE double is a rational, and the arithmetic of the program (multiplication
  by the sign, sums, means) is taken exactly, so the rounding error of double
  arithmetic and the infinities are outside this model. pandas uses \<open>nan\<close> as its
  marker of a missing value.
\<close>

datatype pyfloat = NaN | Fin rat

text \<open>
  A cell of the frame that \<open>pd.read_csv\<close> returns: a number (an int or a float, the
  missing value \<open>nan\<close> included) or a text. Texts are byte strings.
\<close>

datatype cell = Float pyfloat | Text string

text \<open>The product \<open>float(s) * mult\<close>: \<open>nan\<close> times anything is \<open>nan\<close>.\<close>

fun fmul :: "pyfloat \<Rightarrow> rat \<Rightarrow> pyfloat" where
  "fmul NaN m = NaN"
| "fmul (Fin q) m = Fin (q * m)"

text \<open>The exceptions that \<open>load_data\<close> raises.\<close>

datatype error =
    FileNotFoundError
  | MissingColumns "string set"  \<comment> \<open>\<open>ValueError(f"Missing columns in CSV: {missing}")\<close>\<close>
  | FloatValueError string  \<comment> \<open>the \<open>ValueError\<close> of \<open>float(s)\<close>, with the text \<open>s\<close> it was given\<close>

section \<open>The coordinate normalizer\<close>

text \<open>
  \<open>str.strip()\<close> removes the whitespace at both ends. The whitespace characters of
  the 7-bit range are the codes 9 to 13, 28 to 31 and 32.
\<close>

definition is_space :: "char \<Rightarrow> bool" where
  "is_space c = (let n = (of_char c :: nat) in (9 \<le> n \<and> n \<le> 13) \<or> (28 \<le> n \<and> n \<le> 32))"

definition strip :: "string \<Rightarrow> string" where
  "strip s = rev (dropWhile is_space (rev (dropWhile is_space s)))"

text \<open>
  \<open>_to_float\<close> of \<open>load_data\<close>. Python's builtin \<open>float\<close> on a text is the parameter
  \<open>pf\<close>: \<open>None\<close> stands for its \<open>ValueError\<close>. On a number, \<open>float(x)\<close> is the
  number itself.
\<close>

definition to_float :: "(string \<Rightarrow> pyfloat option) \<Rightarrow> cell \<Rightarrow> error + pyfloat" where
  "to_float pf x =
     (case x of
        Float f \<Rightarrow> Inr f
      | Text str \<Rightarrow>
          (let s = strip str;
               suffixed = (s \<noteq> [] \<and> last s \<in> set ''NSEW'');
               mult = (if suffixed \<and> last s \<in> set ''SW'' then - 1 else 1);
               s' = (if suffixed then butlast s else s)
           in case pf s' of
                None \<Rightarrow> Inl (FloatValueError s')
              | Some f \<Rightarrow> Inr (fmul f mult)))"


section \<open>The frame and the library functions\<close>

text \<open>
  A row of the frame, with the column names of the source. The types of the columns
  change from one statement of \<open>load_data\<close> to the next, so they are parameters.
\<close>

record ('d, 'a, 'u, 's, 'c) row =
  dt :: 'd
  AverageTemperature :: 'a
  AverageTemperatureUncertainty :: 'u
  City :: 's
  Country :: 's
  Latitude :: 'c
  Longitude :: 'c

text \<open>
  A timestamp is a year, a month, a day and the nanoseconds since midnight; the
  lexicographic order of the library is the chronological order.
\<close>

type_synonym timestamp = "int \<times> nat \<times> nat \<times> nat"

text \<open>
  The frame as \<open>pd.read_csv\<close> returns it. The texts of \<open>City\<close> and \<open>Country\<close> are
  strings, \<open>None\<close> where the value is missing.
\<close>

type_synonym raw_row = "(cell, cell, cell, string option, cell) row"

record frame =
  columns :: "string list"
  rows :: "raw_row list"

text \<open>
  The functions of pandas and Python that the program calls are parameters:
  \<open>pd.to_datetime(_, errors="coerce")\<close> on a cell (\<open>None\<close> is \<open>NaT\<close>),
  \<open>pd.to_numeric(_, errors="coerce")\<close> on a cell, and \<open>float\<close> on a text.
\<close>

record pylib =
  to_datetime :: "cell \<Rightarrow> timestamp option"
  to_numeric :: "cell \<Rightarrow> pyfloat"
  float_of_str :: "string \<Rightarrow> pyfloat option"

section \<open>\<open>load_data\<close>\<close>

definition expected :: "string set" where
  "expected = {''dt'', ''AverageTemperature'', ''AverageTemperatureUncertainty'',
     ''City'', ''Country'', ''Latitude'', ''Longitude''}"

text \<open>Lines 39 to 41: the three coercions, column by column.\<close>

definition coerce_row :: "pylib \<Rightarrow> raw_row \<Rightarrow> (timestamp option, pyfloat, pyfloat, string option, cell) row" where
  "coerce_row L r =
     \<lparr>dt = to_datetime L (dt r),
      AverageTemperature = to_numeric L (AverageTemperature r),
      AverageTemperatureUncertainty = to_numeric L (AverageTemperatureUncertainty r),
      City = City r, Country = Country r,
      Latitude = Latitude r, Longitude = Longitude r\<rparr>"

definition coerce :: "pylib \<Rightarrow> raw_row list \<Rightarrow> (timestamp option, pyfloat, pyfloat, string option, cell) row list" where
  "coerce L df = map (coerce_row L) df"

text \<open>
  Line 42: \<open>dropna\<close> on the six columns of \<open>subset\<close>. A row that stays has a value in
  each of them, and the model gives it the type of the value.
\<close>

definition isna :: "cell \<Rightarrow> bool" where
  "isna c = (c = Float NaN)"

definition dropna_row ::
  "(timestamp option, pyfloat, pyfloat, string option, cell) row
     \<Rightarrow> (timestamp, rat, pyfloat, string, cell) row option" where
  "dropna_row r =
     (case dt r of None \<Rightarrow> None | Some d \<Rightarrow>
      (case AverageTemperature r of NaN \<Rightarrow> None | Fin a \<Rightarrow>
       (if isna (Latitude r) \<or> isna (Longitude r) then None
        else (case City r of None \<Rightarrow> None | Some c \<Rightarrow>
              (case Country r of None \<Rightarrow> None | Some k \<Rightarrow>
                 Some \<lparr>dt = d, AverageTemperature = a,
                       AverageTemperatureUncertainty = AverageTemperatureUncertainty r,
                       City = c, Country = k,
                       Latitude = Latitude r, Longitude = Longitude r\<rparr>)))))"

definition dropna ::
  "(timestamp option, pyfloat, pyfloat, string option, cell) row list
     \<Rightarrow> (timestamp, rat, pyfloat, string, cell) row list" where
  "dropna df = List.map_filter dropna_row df"

text \<open>
  Lines 55 and 56: \<open>Series.apply\<close> calls the function on the values of a column from
  the first row to the last; the first exception ends the run.
\<close>

fun apply_col :: "('a \<Rightarrow> error + 'b) \<Rightarrow> 'a list \<Rightarrow> error + 'b list" where
  "apply_col f [] = Inr []"
| "apply_col f (x # xs) =
     (case f x of
        Inl e \<Rightarrow> Inl e
      | Inr y \<Rightarrow> (case apply_col f xs of Inl e \<Rightarrow> Inl e | Inr ys \<Rightarrow> Inr (y # ys)))"

definition set_coords ::
  "(timestamp, rat, pyfloat, string, cell) row \<Rightarrow> pyfloat \<times> pyfloat
     \<Rightarrow> (timestamp, rat, pyfloat, string, pyfloat) row" where
  "set_coords r p =
     \<lparr>dt = dt r, AverageTemperature = AverageTemperature r,
      AverageTemperatureUncertainty = AverageTemperatureUncertainty r,
      City = City r, Country = Country r,
      Latitude = fst p, Longitude = snd p\<rparr>"

definition convert_coords ::
  "(string \<Rightarrow> pyfloat option) \<Rightarrow> (timestamp, rat, pyfloat, string, cell) row list
     \<Rightarrow> error + (timestamp, rat, pyfloat, string, pyfloat) row list" where
  "convert_coords pf df =
     (case apply_col (to_float pf) (map Latitude df) of
        Inl e \<Rightarrow> Inl e
      | Inr lats \<Rightarrow>
          (case apply_col (to_float pf) (map Longitude df) of
             Inl e \<Rightarrow> Inl e
           | Inr lons \<Rightarrow> Inr (map2 set_coords df (zip lats lons))))"

text \<open>
  Lines 39 to 58 on the rows of the frame. \<open>sort_values("dt")\<close> is a sort by the key
  \<open>dt\<close>; the order it leaves among rows of one timestamp is not used below.
\<close>

definition load_rows ::
  "pylib \<Rightarrow> raw_row list \<Rightarrow> error + (timestamp, rat, pyfloat, string, pyfloat) row list" where
  "load_rows L df =
     (case convert_coords (float_of_str L) (dropna (coerce L df)) of
        Inl e \<Rightarrow> Inl e
      | Inr df' \<Rightarrow> Inr (sort_key dt df'))"

text \<open>
  \<open>load_data\<close>: the directory is the list of its \<open>*.csv\<close> files, each a name and the
  frame that \<open>pd.read_csv\<close> reads from it.
\<close>

definition load_data ::
  "pylib \<Rightarrow> (string \<times> frame) list
     \<Rightarrow> error + ((timestamp, rat, pyfloat, string, pyfloat) row list \<times> string)" where
  "load_data L csvs =
     (case sort_key fst csvs of
        [] \<Rightarrow> Inl FileNotFoundError
      | path # _ \<Rightarrow>
          (let df = snd path; missing = expected - set (columns df)
           in if missing \<noteq> {} then Inl (MissingColumns missing)
              else (case load_rows L (rows df) of
                      Inl e \<Rightarrow> Inl e
                    | Inr df' \<Rightarrow> Inr (df', fst path))))"

section \<open>The script: clamp, time grouping, aggregation, colour range\<close>

text \<open>
  Line 69. The texts \<open>"1743-01-01"\<close> and \<open>"2013-12-31"\<close> are compared as the
  timestamps of midnight of these days.
\<close>

definition clamp_lo :: timestamp where
  "clamp_lo = (1743, 1, 1, 0)"

definition clamp_hi :: timestamp where
  "clamp_hi = (2013, 12, 31, 0)"

definition clamp ::
  "(timestamp, 'a, 'u, 's, 'c) row list \<Rightarrow> (timestamp, 'a, 'u, 's, 'c) row list" where
  "clamp df = filter (\<lambda>r. clamp_lo \<le> dt r \<and> dt r \<le> clamp_hi) df"

text \<open>\<open>str\<close> of an integer, and \<open>strftime("%Y-%m")\<close>.\<close>

fun nat_digits :: "nat \<Rightarrow> string" where
  "nat_digits n =
     (if n < 10 then [char_of (48 + n)]
      else nat_digits (n div 10) @ [char_of (48 + n mod 10)])"

declare nat_digits.simps [simp del]

definition str_int :: "int \<Rightarrow> string" where
  "str_int i = (if i < 0 then CHR ''-'' # nat_digits (nat (- i)) else nat_digits (nat i))"

definition strftime_Ym :: "timestamp \<Rightarrow> string" where
  "strftime_Ym ts =
     (case ts of (y, m, _) \<Rightarrow>
        str_int y @ ''-'' @ (if m < 10 then ''0'' @ nat_digits m else nat_digits m))"

text \<open>Lines 75 to 80: the columns \<open>t\<close> and \<open>t_label\<close>.\<close>

datatype time_step = Yearly | Monthly

definition TIME_STEP :: time_step where
  "TIME_STEP = Yearly"

definition USE_GLOBAL_COLOR_SCALE :: bool where
  "USE_GLOBAL_COLOR_SCALE = True"

record ('d, 'a, 'u, 's, 'c) trow = "('d, 'a, 'u, 's, 'c) row" +
  t :: timestamp
  t_label :: string

definition period_start :: "time_step \<Rightarrow> timestamp \<Rightarrow> timestamp" where
  "period_start step ts =
     (case ts of (y, m, _) \<Rightarrow>
        (case step of Yearly \<Rightarrow> (y, 1, 1, 0) | Monthly \<Rightarrow> (y, m, 1, 0)))"

definition period_label :: "time_step \<Rightarrow> timestamp \<Rightarrow> string" where
  "period_label step p =
     (case step of Yearly \<Rightarrow> str_int (fst p) | Monthly \<Rightarrow> strftime_Ym p)"

definition time_grouping ::
  "time_step \<Rightarrow> (timestamp, 'a, 'u, 's, 'c) row list \<Rightarrow> (timestamp, 'a, 'u, 's, 'c) trow list" where
  "time_grouping step df =
     map (\<lambda>r. \<lparr>dt = dt r, AverageTemperature = AverageTemperature r,
                AverageTemperatureUncertainty = AverageTemperatureUncertainty r,
                City = City r, Country = Country r,
                Latitude = Latitude r, Longitude = Longitude r,
                t = period_start step (dt r),
                t_label = period_label step (period_start step (dt r))\<rparr>) df"

text \<open>
  Lines 83 to 91. \<open>groupby\<close> sorts the group keys (\<open>sort=True\<close> is its default), so the
  groups come in the lexicographic order of the triples of texts. \<open>mean\<close> skips \<open>nan\<close>
  and is \<open>nan\<close> on a group that has no value.
\<close>

definition mean :: "rat list \<Rightarrow> rat" where
  "mean xs = sum_list xs / of_nat (length xs)"

fun finite_values :: "pyfloat list \<Rightarrow> rat list" where
  "finite_values [] = []"
| "finite_values (NaN # xs) = finite_values xs"
| "finite_values (Fin q # xs) = q # finite_values xs"

definition nanmean :: "pyfloat list \<Rightarrow> pyfloat" where
  "nanmean xs = (let vs = finite_values xs in if vs = [] then NaN else Fin (mean vs))"

record agg_row =
  agg_t_label :: string
  agg_City :: string
  agg_Country :: string
  agg_AverageTemperature :: rat
  agg_AverageTemperatureUncertainty :: pyfloat
  agg_Latitude :: pyfloat
  agg_Longitude :: pyfloat

definition group_key :: "(timestamp, rat, pyfloat, string, pyfloat) trow \<Rightarrow> string \<times> string \<times> string" where
  "group_key r = (t_label r, City r, Country r)"

definition group_keys :: "(timestamp, rat, pyfloat, string, pyfloat) trow list \<Rightarrow> (string \<times> string \<times> string) list" where
  "group_keys df = sort (remdups (map group_key df))"

definition agg_group ::
  "(timestamp, rat, pyfloat, string, pyfloat) trow list \<Rightarrow> string \<times> string \<times> string \<Rightarrow> agg_row" where
  "agg_group df k =
     (let g = filter (\<lambda>r. group_key r = k) df
      in \<lparr>agg_t_label = fst k, agg_City = fst (snd k), agg_Country = snd (snd k),
          agg_AverageTemperature = mean (map AverageTemperature g),
          agg_AverageTemperatureUncertainty = nanmean (map AverageTemperatureUncertainty g),
          agg_Latitude = nanmean (map Latitude g),
          agg_Longitude = nanmean (map Longitude g)\<rparr>)"

definition groupby_agg :: "(timestamp, rat, pyfloat, string, pyfloat) trow list \<Rightarrow> agg_row list" where
  "groupby_agg df = map (agg_group df) (group_keys df)"

text \<open>
  Lines 93 and 94: \<open>round(1)\<close> of numpy multiplies by ten, rounds to the nearest
  integer with \<open>rint\<close> (a tie goes to the even integer) and divides by ten.
\<close>

definition rint :: "rat \<Rightarrow> int" where
  "rint q =
     (let f = \<lfloor>q\<rfloor>; d = q - of_int f
      in if d < 1 / 2 then f else if 1 / 2 < d then f + 1
         else if even f then f else f + 1)"

definition round1 :: "rat \<Rightarrow> rat" where
  "round1 q = of_int (rint (q * 10)) / 10"

fun fround1 :: "pyfloat \<Rightarrow> pyfloat" where
  "fround1 NaN = NaN"
| "fround1 (Fin q) = Fin (round1 q)"

definition round_agg :: "agg_row list \<Rightarrow> agg_row list" where
  "round_agg agg =
     map (\<lambda>a. a\<lparr>agg_AverageTemperature := round1 (agg_AverageTemperature a),
                 agg_AverageTemperatureUncertainty := fround1 (agg_AverageTemperatureUncertainty a)\<rparr>) agg"

text \<open>
  Lines 101 to 107. \<open>min\<close> and \<open>max\<close> of a column that has no value are \<open>nan\<close>.
\<close>

definition range_color :: "bool \<Rightarrow> agg_row list \<Rightarrow> (pyfloat \<times> pyfloat) option" where
  "range_color use_global agg =
     (if use_global then
        (case map agg_AverageTemperature agg of
           [] \<Rightarrow> Some (NaN, NaN)
         | x # xs \<Rightarrow> Some (Fin (fold min xs x), Fin (fold max xs x)))
      else None)"

text \<open>
  The script from line 69 on, up to the arguments of the figure: \<open>st.stop()\<close> ends
  the run after the message of \<open>st.error\<close>.
\<close>

datatype outcome =
    Stopped string
  | Figure "agg_row list" "(pyfloat \<times> pyfloat) option"

definition script ::
  "time_step \<Rightarrow> bool \<Rightarrow> (timestamp, rat, pyfloat, string, pyfloat) row list \<Rightarrow> outcome" where
  "script step use_global df0 =
     (let df = clamp df0
      in if df = [] then Stopped ''No data in required range.''
         else (let agg = round_agg (groupby_agg (time_grouping step df))
               in if agg = [] then Stopped ''No aggregated data available.''
                  else Figure agg (range_color use_global agg)))"

definition run :: "pylib \<Rightarrow> (string \<times> frame) list \<Rightarrow> error + outcome" where
  "run L csvs =
     (case load_data L csvs of
        Inl e \<Rightarrow> Inl e
      | Inr (df, fname) \<Rightarrow> Inr (script TIME_STEP USE_GLOBAL_COLOR_SCALE df))"

section \<open>An instance of the library functions\<close>

text \<open>
  To run the program on concrete frames, the library functions are instantiated by
  parsers of the plain forms: decimal literals such as \<open>-23.17\<close> for \<open>float\<close> and
  \<open>to_numeric\<close>, and dates \<open>YYYY-MM-DD\<close> within the years that a pandas timestamp
  can hold for \<open>to_datetime\<close>. The library functions accept more than these forms;
  on the texts used below they agree with them.
\<close>

definition is_digit :: "char \<Rightarrow> bool" where
  "is_digit c = (let n = (of_char c :: nat) in 48 \<le> n \<and> n \<le> 57)"

definition digits_value :: "string \<Rightarrow> nat" where
  "digits_value s = foldl (\<lambda>a c. 10 * a + (of_char c - 48)) 0 s"

definition dec_unsigned :: "string \<Rightarrow> rat option" where
  "dec_unsigned s =
     (let ip = takeWhile is_digit s; rest = dropWhile is_digit s
      in if ip = [] then None
         else (case rest of
                 [] \<Rightarrow> Some (of_nat (digits_value ip))
               | c # fr \<Rightarrow>
                   if c = CHR ''.'' \<and> list_all is_digit fr
                   then Some (of_nat (digits_value ip) + of_nat (digits_value fr) / 10 ^ length fr)
                   else None))"

definition dec_float :: "string \<Rightarrow> pyfloat option" where
  "dec_float str =
     (case strip str of
        [] \<Rightarrow> None
      | c # u \<Rightarrow>
          if c = CHR ''-'' then map_option (\<lambda>q. Fin (- q)) (dec_unsigned u)
          else map_option Fin (dec_unsigned (c # u)))"

definition dec_numeric :: "cell \<Rightarrow> pyfloat" where
  "dec_numeric x =
     (case x of Float f \<Rightarrow> f
      | Text s \<Rightarrow> (case dec_float s of None \<Rightarrow> NaN | Some f \<Rightarrow> f))"

definition iso_date :: "cell \<Rightarrow> timestamp option" where
  "iso_date x =
     (case x of Float f \<Rightarrow> None
      | Text s \<Rightarrow>
          if length s = 10 \<and> take 1 (drop 4 s) = ''-'' \<and> take 1 (drop 7 s) = ''-''
             \<and> list_all is_digit (take 4 s @ take 2 (drop 5 s) @ drop 8 s)
          then (let y = digits_value (take 4 s); m = digits_value (take 2 (drop 5 s));
                    d = digits_value (drop 8 s)
                in if 1678 \<le> y \<and> y \<le> 2261 \<and> 1 \<le> m \<and> m \<le> 12 \<and> 1 \<le> d \<and> d \<le> 31
                   then Some (int y, m, d, 0) else None)
          else None)"

definition demo_lib :: pylib where
  "demo_lib = \<lparr>to_datetime = iso_date, to_numeric = dec_numeric, float_of_str = dec_float\<rparr>"




text \<open>Frames on which the program is run below: rows of texts under the seven columns.\<close>

definition all_columns :: "string list" where
  "all_columns = [''dt'', ''AverageTemperature'', ''AverageTemperatureUncertainty'',
     ''City'', ''Country'', ''Latitude'', ''Longitude'']"

definition text_row ::
  "string \<Rightarrow> string \<Rightarrow> string \<Rightarrow> string \<Rightarrow> string \<Rightarrow> string \<Rightarrow> string \<Rightarrow> raw_row" where
  "text_row d a u c k la lo =
     \<lparr>dt = Text d, AverageTemperature = Text a, AverageTemperatureUncertainty = Text u,
      City = Some c, Country = Some k, Latitude = Text la, Longitude = Text lo\<rparr>"


definition bad_coord_row :: raw_row where
  "bad_coord_row = text_row ''1950-06-01'' ''20.0'' ''0.3'' ''Lima'' ''Peru'' ''4xN'' ''77.03W''"




definition no_country_csvs :: "(string \<times> frame) list" where
  "no_country_csvs =
     [(''cities.csv'',
       \<lparr>columns = [''dt'', ''AverageTemperature'', ''AverageTemperatureUncertainty'',
                   ''City'', ''Latitude'', ''Longitude''],
        rows = [bad_coord_row]\<rparr>)]"





text \<open>
  The ranges that the specification states of a record after the range filter: the
  date within the clamp interval, the latitude within 90 degrees and the longitude
  within 180 degrees of zero.
\<close>

definition in_degrees :: "rat \<Rightarrow> pyfloat \<Rightarrow> bool" where
  "in_degrees b x = (case x of NaN \<Rightarrow> False | Fin q \<Rightarrow> - b \<le> q \<and> q \<le> b)"

definition stated_ranges :: "(timestamp, rat, pyfloat, string, pyfloat) row \<Rightarrow> bool" where
  "stated_ranges r =
     (clamp_lo \<le> dt r \<and> dt r \<le> clamp_hi
      \<and> in_degrees 90 (Latitude r) \<and> in_degrees 180 (Longitude r))"

definition far_csvs :: "(string \<times> frame) list" where
  "far_csvs =
     [(''cities.csv'',
       \<lparr>columns = all_columns,
        rows = [text_row ''1950-06-01'' ''20.0'' ''0.3'' ''Lima'' ''Peru'' ''95.0S'' ''200.0W'']\<rparr>)]"

definition far_record :: "(timestamp, rat, pyfloat, string, pyfloat) row" where
  "far_record =
     \<lparr>dt = (1950, 6, 1, 0), AverageTemperature = 20,
      AverageTemperatureUncertainty = Fin (3 / 10), City = ''Lima'', Country = ''Peru'',
      Latitude = Fin (- 95), Longitude = Fin (- 200)\<rparr>"

text \<open>The key of a record of the aggregated frame.\<close>

definition agg_key :: "agg_row \<Rightarrow> string \<times> string \<times> string" where
  "agg_key a = (agg_t_label a, agg_City a, agg_Country a)"

text \<open>A frame after \<open>load_data\<close> with two temperatures on a tie, and its aggregate.\<close>

definition tie_df :: "(timestamp, rat, pyfloat, string, pyfloat) row list" where
  "tie_df =
     [\<lparr>dt = (1900, 1, 15, 0), AverageTemperature = 1 / 4,
       AverageTemperatureUncertainty = Fin (7 / 20), City = ''Oslo'', Country = ''Norway'',
       Latitude = Fin (1199 / 20), Longitude = Fin (43 / 4)\<rparr>,
      \<lparr>dt = (1900, 1, 15, 0), AverageTemperature = 7 / 20,
       AverageTemperatureUncertainty = Fin (1 / 4), City = ''Paris'', Country = ''France'',
       Latitude = Fin (977 / 20), Longitude = Fin (47 / 20)\<rparr>,
      \<lparr>dt = (1950, 6, 1, 0), AverageTemperature = 20,
       AverageTemperatureUncertainty = NaN, City = ''Lima'', Country = ''Peru'',
       Latitude = Fin (- 241 / 20), Longitude = Fin (- 7703 / 100)\<rparr>]"

definition tie_agg :: "agg_row list" where
  "tie_agg =
     [\<lparr>agg_t_label = ''1900'', agg_City = ''Oslo'', agg_Country = ''Norway'',
       agg_AverageTemperature = 1 / 5, agg_AverageTemperatureUncertainty = Fin (2 / 5),
       agg_Latitude = Fin (1199 / 20), agg_Longitude = Fin (43 / 4)\<rparr>,
      \<lparr>agg_t_label = ''1900'', agg_City = ''Paris'', agg_Country = ''France'',
       agg_AverageTemperature = 2 / 5, agg_AverageTemperatureUncertainty = Fin (1 / 5),
       agg_Latitude = Fin (977 / 20), agg_Longitude = Fin (47 / 20)\<rparr>,
      \<lparr>agg_t_label = ''1950'', agg_City = ''Lima'', agg_Country = ''Peru'',
       agg_AverageTemperature = 20, agg_AverageTemperatureUncertainty = NaN,
       agg_Latitude = Fin (- 241 / 20), agg_Longitude = Fin (- 7703 / 100)\<rparr>]"







section \<open>Properties of the coordinate normalizer\<close>












section \<open>Failures of the normalizer end the run\<close>

lemma to_float_error: "to_float pf x = Inl e \<Longrightarrow> \<exists>s. e = FloatValueError s"
  by (auto simp: to_float_def Let_def split: cell.splits option.splits)

lemma apply_col_Inl: "apply_col f xs = Inl e \<Longrightarrow> \<exists>x\<in>set xs. f x = Inl e"
  by (induction xs) (auto split: sum.splits)





lemma convert_coords_Inl:
  assumes "convert_coords pf df = Inl e"
  shows "\<exists>r\<in>set df. to_float pf (Latitude r) = Inl e \<or> to_float pf (Longitude r) = Inl e"
proof (cases "apply_col (to_float pf) (map Latitude df)")
  case (Inl e1)
  with assms have "e1 = e"
    by (simp add: convert_coords_def)
  with Inl show ?thesis
    by (auto dest!: apply_col_Inl)
next
  case (Inr lats)
  with assms have "apply_col (to_float pf) (map Longitude df) = Inl e"
    by (simp add: convert_coords_def split: sum.splits)
  then show ?thesis
    by (auto dest!: apply_col_Inl)
qed

















section \<open>Schema validation\<close>

lemma load_rows_error: "load_rows L df = Inl e \<Longrightarrow> \<exists>s. e = FloatValueError s"
proof -
  assume "load_rows L df = Inl e"
  then have "convert_coords (float_of_str L) (dropna (coerce L df)) = Inl e"
    by (simp add: load_rows_def split: sum.splits)
  then have "\<exists>x. to_float (float_of_str L) x = Inl e"
    by (blast dest: convert_coords_Inl)
  then show ?thesis
    by (blast dest: to_float_error)
qed

lemma load_data_missing:
  assumes "sort_key fst csvs = (fname, fr) # rest"
  shows "load_data L csvs = Inl (MissingColumns M) \<longleftrightarrow> M = expected - set (columns fr) \<and> M \<noteq> {}"
proof (cases "expected - set (columns fr) = {}")
  case True
  then have "load_data L csvs = (case load_rows L (rows fr) of Inl e \<Rightarrow> Inl e | Inr df' \<Rightarrow> Inr (df', fname))"
    using assms by (simp add: load_data_def split: sum.splits)
  moreover have "load_rows L (rows fr) \<noteq> Inl (MissingColumns M)"
    by (auto dest: load_rows_error)
  ultimately have "load_data L csvs \<noteq> Inl (MissingColumns M)"
    by (auto split: sum.splits)
  with True show ?thesis
    by auto
next
  case False
  then have "load_data L csvs = Inl (MissingColumns (expected - set (columns fr)))"
    using assms by (simp add: load_data_def)
  with False show ?thesis
    by auto
qed

text \<open>
  Claim C5. With \<open>fr\<close> the frame of the first file: \<open>load_data\<close>, and with it the run,
  ends with the error of missing columns exactly when the required names without the
  columns of \<open>fr\<close> are not the empty set, and the error carries exactly that set. This
  holds whatever the rows of \<open>fr\<close> are and whatever the library functions do on them:
  the check comes before any work on the rows.
\<close>

theorem missing_columns_iff:
  assumes "sort_key fst csvs = (fname, fr) # rest"
  shows "(load_data L csvs = Inl (MissingColumns M) \<longleftrightarrow> M = expected - set (columns fr) \<and> M \<noteq> {})
       \<and> (run L csvs = Inl (MissingColumns M) \<longleftrightarrow> M = expected - set (columns fr) \<and> M \<noteq> {})"
proof -
  have "run L csvs = Inl (MissingColumns M) \<longleftrightarrow> load_data L csvs = Inl (MissingColumns M)"
    by (auto simp: run_def split: sum.splits)
  then show ?thesis
    using load_data_missing [OF assms] by simp
qed

theorem missing_columns_iff_witness:
  "sort_key fst no_country_csvs = (''cities.csv'', snd (hd no_country_csvs)) # []
   \<and> expected - set (columns (snd (hd no_country_csvs))) = {''Country''}
   \<and> load_data demo_lib no_country_csvs = Inl (MissingColumns {''Country''})
   \<and> run demo_lib no_country_csvs = Inl (MissingColumns {''Country''})
   \<and> rows (snd (hd no_country_csvs)) = [bad_coord_row]"
proof -
  have 1: "sort_key fst no_country_csvs = (''cities.csv'', snd (hd no_country_csvs)) # []"
    by (simp add: no_country_csvs_def)
  have 2: "expected - set (columns (snd (hd no_country_csvs))) = {''Country''}"
    by (auto simp: no_country_csvs_def expected_def)
  have 3: "rows (snd (hd no_country_csvs)) = [bad_coord_row]"
    by (simp add: no_country_csvs_def)
  from missing_columns_iff [OF 1, of demo_lib "{''Country''}"] 1 2 3 show ?thesis
    by simp
qed

section \<open>The lenient coercions\<close>








section \<open>The range filter\<close>

text \<open>
  Claim C2 as it is stated fails on the coordinates: nothing in the program compares a
  latitude or a longitude with a bound. A row of latitude \<open>95.0S\<close> and longitude
  \<open>200.0W\<close> passes \<open>load_data\<close> and the clamp of line 69 and reaches the figure.
\<close>

theorem range_filter_coordinates_counterexample:
  "load_data demo_lib far_csvs = Inr ([far_record], ''cities.csv'')
   \<and> clamp [far_record] = [far_record]
   \<and> \<not> stated_ranges far_record
   \<and> run demo_lib far_csvs =
       Inr (Figure [\<lparr>agg_t_label = ''1950'', agg_City = ''Lima'', agg_Country = ''Peru'',
                      agg_AverageTemperature = 20, agg_AverageTemperatureUncertainty = Fin (3 / 10),
                      agg_Latitude = Fin (- 95), agg_Longitude = Fin (- 200)\<rparr>]
                   (Some (Fin 20, Fin 20)))"
  by code_simp

text \<open>
  Claim C2, amended. Every record that line 69 keeps has its \<open>dt\<close> between midnight
  of 1743-01-01 and midnight of 2013-12-31, so its date lies in the interval from
  1743-01-01 to 2013-12-31, both ends included.
\<close>

theorem clamp_dt_range:
  assumes "r \<in> set (clamp df)"
  shows "clamp_lo \<le> dt r \<and> dt r \<le> clamp_hi
       \<and> (\<forall>y m d n. dt r = (y, m, d, n) \<longrightarrow>
            (1743, 1, 1) \<le> (y, m, d) \<and> (y, m, d) \<le> (2013, 12, 31))"
proof -
  from assms have b: "clamp_lo \<le> dt r" "dt r \<le> clamp_hi"
    by (simp_all add: clamp_def)
  have "(1743, 1, 1) \<le> (y, m, d) \<and> (y, m, d) \<le> (2013, 12, 31)" if "dt r = (y, m, d, n)" for y m d n
    using b that by (auto simp: clamp_lo_def clamp_hi_def less_eq_prod_def less_prod_def)
  with b show ?thesis
    by blast
qed

theorem clamp_dt_range_witness:
  "far_record \<in> set (clamp [far_record])
   \<and> clamp_lo \<le> dt far_record \<and> dt far_record \<le> clamp_hi
   \<and> dt far_record = (1950, 6, 1, 0)
   \<and> (1743, 1, 1) \<le> (1950 :: int, 6 :: nat, 1 :: nat) \<and> (1950 :: int, 6 :: nat, 1 :: nat) \<le> (2013, 12, 31)"
proof -
  have 1: "far_record \<in> set (clamp [far_record])"
    by code_simp
  have 2: "dt far_record = (1950, 6, 1, 0)"
    by (simp add: far_record_def)
  from clamp_dt_range [OF 1] 1 2 show ?thesis
    by simp
qed

section \<open>The keys of the aggregated frame\<close>

lemma map_agg_key_round_agg: "map agg_key (round_agg agg) = map agg_key agg"
  by (simp add: round_agg_def agg_key_def)

lemma map_agg_key_groupby_agg: "map agg_key (groupby_agg df) = group_keys df"
  by (simp add: groupby_agg_def agg_key_def agg_group_def Let_def map_idI)

lemma agg_keys: "map agg_key (round_agg (groupby_agg df)) = group_keys df"
  by (simp add: map_agg_key_round_agg map_agg_key_groupby_agg)

lemma distinct_group_keys: "distinct (group_keys df)"
  by (simp add: group_keys_def)

text \<open>
  Claim C4. The aggregated frame has no two records of one triple of period label,
  city and country, whatever the rows that are grouped.
\<close>

theorem aggregated_keys_distinct:
  "distinct (map agg_key (round_agg (groupby_agg df)))
   \<and> distinct (map agg_key (round_agg (groupby_agg (time_grouping step (clamp df0)))))"
  by (simp add: agg_keys distinct_group_keys)

section \<open>The colour range\<close>

lemma fold_min_Min: "fold min xs (x :: rat) = Min (set (x # xs))"
  by (rule Min.set_eq_fold [symmetric])

lemma fold_max_Max: "fold max xs (x :: rat) = Max (set (x # xs))"
  by (rule Max.set_eq_fold [symmetric])

lemma range_color_global:
  assumes "agg \<noteq> []"
  shows "range_color True agg =
           Some (Fin (Min (agg_AverageTemperature ` set agg)), Fin (Max (agg_AverageTemperature ` set agg)))"
proof -
  obtain x xs where xs: "map agg_AverageTemperature agg = x # xs"
    using assms by (cases agg) auto
  then have "set (x # xs) = agg_AverageTemperature ` set agg"
    by (metis set_map)
  with xs show ?thesis
    by (simp add: range_color_def fold_min_Min fold_max_Max del: set_simps)
qed

lemma script_Figure:
  assumes "script step use_global df0 = Figure agg rc"
  shows "agg \<noteq> []" and "rc = range_color use_global agg"
    and "agg = round_agg (groupby_agg (time_grouping step (clamp df0)))"
proof -
  define A where "A = round_agg (groupby_agg (time_grouping step (clamp df0)))"
  have "script step use_global df0 =
          (if clamp df0 = [] then Stopped ''No data in required range.''
           else if A = [] then Stopped ''No aggregated data available.''
           else Figure A (range_color use_global A))"
    by (simp add: script_def Let_def A_def)
  with assms have "A \<noteq> []" and "Figure A (range_color use_global A) = Figure agg rc"
    by (auto split: if_splits)
  then have "A \<noteq> []" and "A = agg" and "range_color use_global A = rc"
    by auto
  then show "agg \<noteq> []" and "rc = range_color use_global agg"
    and "agg = round_agg (groupby_agg (time_grouping step (clamp df0)))"
    unfolding A_def by auto
qed

text \<open>
  Claim C8. When the script draws the figure with the global scale, the colour range
  is the least and the greatest of the aggregated temperatures, so every aggregated
  temperature lies between its two ends; without the global scale there is no range.
\<close>

theorem range_color_bounds:
  assumes "script step use_global df0 = Figure agg rc"
  shows "(use_global \<longrightarrow>
            rc = Some (Fin (Min (agg_AverageTemperature ` set agg)),
                       Fin (Max (agg_AverageTemperature ` set agg)))
            \<and> (\<forall>a\<in>set agg. Min (agg_AverageTemperature ` set agg) \<le> agg_AverageTemperature a
                            \<and> agg_AverageTemperature a \<le> Max (agg_AverageTemperature ` set agg)))
       \<and> (\<not> use_global \<longrightarrow> rc = None)"
proof -
  note ne = script_Figure(1) [OF assms] and rc = script_Figure(2) [OF assms]
  have "\<forall>a\<in>set agg. Min (agg_AverageTemperature ` set agg) \<le> agg_AverageTemperature a
                            \<and> agg_AverageTemperature a \<le> Max (agg_AverageTemperature ` set agg)"
    by simp
  moreover have "use_global \<Longrightarrow> rc = Some (Fin (Min (agg_AverageTemperature ` set agg)),
                       Fin (Max (agg_AverageTemperature ` set agg)))"
    using rc range_color_global [OF ne] by simp
  moreover have "\<not> use_global \<Longrightarrow> rc = None"
    using rc by (simp add: range_color_def)
  ultimately show ?thesis
    by blast
qed

theorem range_color_bounds_witness:
  "script Yearly True tie_df = Figure tie_agg (Some (Fin (1 / 5), Fin 20))
   \<and> Min (agg_AverageTemperature ` set tie_agg) = 1 / 5
   \<and> Max (agg_AverageTemperature ` set tie_agg) = 20
   \<and> list_all (\<lambda>a. 1 / 5 \<le> agg_AverageTemperature a \<and> agg_AverageTemperature a \<le> 20) tie_agg
   \<and> script Yearly False tie_df = Figure tie_agg None"
proof -
  have 1: "script Yearly True tie_df = Figure tie_agg (Some (Fin (1 / 5), Fin 20))"
    by code_simp
  have 2: "script Yearly False tie_df = Figure tie_agg None"
    by code_simp
  note bounds = range_color_bounds [OF 1]
  from bounds
  have 3: "Some (Fin (1 / 5), Fin 20) = Some (Fin (Min (agg_AverageTemperature ` set tie_agg)),
                       Fin (Max (agg_AverageTemperature ` set tie_agg)))"
    by blast
  from bounds
  have 4: "\<forall>a\<in>set tie_agg. Min (agg_AverageTemperature ` set tie_agg) \<le> agg_AverageTemperature a
                            \<and> agg_AverageTemperature a \<le> Max (agg_AverageTemperature ` set tie_agg)"
    by blast
  from 3 have 5: "Min (agg_AverageTemperature ` set tie_agg) = 1 / 5"
    and 6: "Max (agg_AverageTemperature ` set tie_agg) = 20"
    by simp_all
  from range_color_bounds [OF 2] have 7: "(None :: (pyfloat \<times> pyfloat) option) = None"
    by simp
  from 4 have "\<forall>a\<in>set tie_agg. 1 / 5 \<le> agg_AverageTemperature a \<and> agg_AverageTemperature a \<le> 20"
    unfolding 5 6 .
  then have 8: "list_all (\<lambda>a. 1 / 5 \<le> agg_AverageTemperature a \<and> agg_AverageTemperature a \<le> 20) tie_agg"
    by (simp only: list_all_iff)
  from 1 2 5 6 8 show ?thesis
    by (intro conjI) assumption+
qed

section \<open>Rounding to one decimal\<close>





section \<open>The order of the aggregated frame\<close>

subsection \<open>Labels of four-digit years are ordered as the years\<close>

















subsection \<open>Sorting by label is sorting by period\<close>










subsection \<open>The aggregate depends on the rows as a multiset\<close>















end
